theory Spec2Isabelle
  imports Complex_Main "HOL-Library.Word"
begin

unbundle bit_operations_syntax

section \<open>Data model\<close>

text \<open>
  The firmware runs on an STM32F4 (Cortex-M4): \<open>int\<close> and pointers are 32 bits wide,
  \<open>long long\<close> is 64 bits wide. A C \<open>float\<close> is kept as its 32-bit IEEE-754 pattern;
  the functions below only store and return it. A \<open>Block *\<close> is kept as the 32-bit
  address it holds, \<open>0\<close> being the null pointer.
\<close>

type_synonym float = "32 word"
type_synonym Block_ptr = "32 word"

text \<open>
  The private fields of \<open>class StepTicker\<close> (StepTicker.h), in the order of the class.
  The field \<open>m_conveyor\<close> is a pointer to the Conveyor owned by MachineCore; the
  Conveyor itself is the \<open>m_conveyor\<close> component of the machine state below.

  The last two components are not fields of the class: they are the logical state of
  the two hardware lines that \<open>EnableStepperDrivers\<close> and \<open>ResetStepperDrivers\<close>
  drive (STEP_ENABLE and STEP_RESET in gpio.cpp).
\<close>

record StepTicker =
  frequency :: float
  period :: "32 word"
  inversion_mask_bits_steps :: "8 word"
  inversion_mask_bits_dirs :: "8 word"
  unstep_bits :: "8 word"
  motor_enable_bits :: "8 word"
  current_block :: Block_ptr
  current_tick :: "32 word"
  running :: bool
  drivers_enabled :: bool
  drivers_in_reset :: bool

section \<open>StepTicker: the inline members of StepTicker.h\<close>

text \<open>
  \<open>float get_frequency() const { return frequency; }\<close> and
  \<open>const Block *get_current_block() const { return current_block; }\<close>.
  Each call is modelled as returning its result together with the state it leaves.
\<close>

definition get_frequency :: "StepTicker \<Rightarrow> float \<times> StepTicker" where
  "get_frequency st = (frequency st, st)"

definition get_current_block :: "StepTicker \<Rightarrow> Block_ptr \<times> StepTicker" where
  "get_current_block st = (current_block st, st)"

text \<open>
  \<open>1 << axis\<close>: the literal is an \<open>int\<close> and \<open>axis\<close> (a \<open>uint8_t\<close>) is promoted to
  \<open>int\<close>, so the shift is a 32-bit one. C++ leaves the shift undefined when the count
  is not smaller than the width of \<open>int\<close>; that case is \<open>None\<close>.
\<close>

definition shl1 :: "8 word \<Rightarrow> 32 word option" where
  "shl1 axis = (if unat axis < 32 then Some (push_bit (unat axis) 1) else None)"

text \<open>
  \<open>this->motor_enable_bits |= (1 << axis);\<close>
  The \<open>uint8_t\<close> field is promoted to \<open>int\<close>, combined, and the result is truncated
  back to 8 bits by the assignment.
\<close>

definition EnableMotor :: "8 word \<Rightarrow> StepTicker \<Rightarrow> StepTicker option" where
  "EnableMotor axis st =
     (case shl1 axis of
        None \<Rightarrow> None
      | Some m \<Rightarrow>
          Some (st\<lparr>motor_enable_bits := ucast ((ucast (motor_enable_bits st) :: 32 word) OR m)\<rparr>))"

text \<open>\<open>this->motor_enable_bits &= (~(1 << axis));\<close>\<close>

definition DisableMotor :: "8 word \<Rightarrow> StepTicker \<Rightarrow> StepTicker option" where
  "DisableMotor axis st =
     (case shl1 axis of
        None \<Rightarrow> None
      | Some m \<Rightarrow>
          Some (st\<lparr>motor_enable_bits :=
                  ucast ((ucast (motor_enable_bits st) :: 32 word) AND NOT m)\<rparr>))"

text \<open>\<open>this->motor_enable_bits = 0;\<close>\<close>

definition DisableAllMotors :: "StepTicker \<Rightarrow> StepTicker" where
  "DisableAllMotors st = st\<lparr>motor_enable_bits := 0\<rparr>"


text \<open>
  Modelled from the spec: StepTicker.cpp is not part of the sources, only the
  declaration \<open>void EnableStepperDrivers(bool enable)\<close> is. The specification calls it
  "direct hardware-enable control, orthogonal to queued motion" and says that "an idle
  timeout (external timer) disables drivers after a configured delay". Its data model
  has \<open>motor_enable_bits\<close> as the "per-axis bitmask of which stepper drivers are
  currently energized", which "persists across blocks until idle timeout disables it",
  and the idle timeout makes one call only, \<open>EnableStepperDrivers(false)\<close>. So
  disabling drives the enable line off and clears \<open>motor_enable_bits\<close>. Enabling drives
  the line on; the specification gives it no effect on the per-axis bits, which
  \<open>EnableMotor\<close> sets.
\<close>

definition EnableStepperDrivers :: "bool \<Rightarrow> StepTicker \<Rightarrow> StepTicker" where
  "EnableStepperDrivers enable st =
     (if enable then st\<lparr>drivers_enabled := True\<rparr>
      else st\<lparr>drivers_enabled := False, motor_enable_bits := 0\<rparr>)"

text \<open>
  Modelled from the spec: only the declaration \<open>void ResetStepperDrivers(bool reset)\<close>
  is part of the sources. The specification lists it with the "direct hardware-enable
  control"; MachineCore.cpp asserts the reset in \<open>Initialize\<close> and releases it in the
  startup callback. It drives the reset line of the drivers.
\<close>

definition ResetStepperDrivers :: "bool \<Rightarrow> StepTicker \<Rightarrow> StepTicker" where
  "ResetStepperDrivers reset st = st\<lparr>drivers_in_reset := reset\<rparr>"

subsection \<open>The 2.62 fixed point macros\<close>

text \<open>
  \<open>#define STEPTICKER_FPSCALE (1LL<<62)\<close>: a \<open>long long\<close>, read as a signed 64-bit
  value with \<open>sint\<close>.
\<close>

definition STEPTICKER_FPSCALE :: "64 word" where
  "STEPTICKER_FPSCALE = push_bit 62 1"

text \<open>
  \<open>#define STEPTICKER_FROMFP(x) ((float)(x)/STEPTICKER_FPSCALE)\<close>.
  The conversion \<open>(float)(x)\<close> rounds to a single-precision value; it is the parameter
  \<open>to_float\<close>, giving the real number the rounded value stands for. The divisor is
  converted to \<open>float\<close> as well and the quotient is the real quotient of the two.
\<close>

definition STEPTICKER_FROMFP :: "(64 word \<Rightarrow> real) \<Rightarrow> 64 word \<Rightarrow> real" where
  "STEPTICKER_FROMFP to_float x = to_float x / real_of_int (sint STEPTICKER_FPSCALE)"

section \<open>Collaborators of MachineCore\<close>

text \<open>
  Modelled from the spec: Block.h and Conveyor.h are not part of the sources. The
  specification describes a Block as "per-axis step counts, direction bits, and a
  precomputed trapezoidal velocity profile", and the Conveyor as a "bounded ordered
  sequence of Block, FIFO discipline" whose \<open>flush_queue()\<close> "empties the queue
  immediately".
\<close>

record Block =
  steps :: "32 word list"
  direction_bits :: "8 word"
  nominal_rate :: float
  entry_speed :: float
  exit_speed :: float
  accelerate_until :: "32 word"
  decelerate_after :: "32 word"
  initial_rate :: float
  final_rate :: float

record Conveyor =
  queue :: "Block list"

definition flush_queue :: "Conveyor \<Rightarrow> Conveyor" where
  "flush_queue c = c\<lparr>queue := []\<rparr>"


subsection \<open>GPIO inputs and the macros of pins.h\<close>

datatype GPIO_TypeDef = GPIOA | GPIOB | GPIOC | GPIOD | GPIOE | GPIOF | GPIOG | GPIOH

datatype GPIO_PinState = GPIO_PIN_RESET | GPIO_PIN_SET

text \<open>The input data register of every port, as the hardware presents it at a read.\<close>

type_synonym gpio_inputs = "GPIO_TypeDef \<Rightarrow> 32 word"

text \<open>
  pins.h is not part of the sources: the port and pin macros that MachineCore.cpp reads
  are parameters. A pin macro is a \<open>uint16_t\<close> mask.
\<close>

record pins_h =
  GLOBAL_FAULT_GPIO_Port :: GPIO_TypeDef
  GLOBAL_FAULT_Pin :: "16 word"
  LIM_X_GPIO_Port :: GPIO_TypeDef
  LIM_X_Pin :: "16 word"
  BTN_START_GPIO_Port :: GPIO_TypeDef
  BTN_START_Pin :: "16 word"
  BTN_HOLD_GPIO_Port :: GPIO_TypeDef
  BTN_HOLD_Pin :: "16 word"
  BTN_ABORT_GPIO_Port :: GPIO_TypeDef
  BTN_ABORT_Pin :: "16 word"

text \<open>
  \<open>HAL_GPIO_ReadPin\<close> of the STM32 HAL: \<open>GPIO_PIN_SET\<close> when the masked input data
  register is not zero.
\<close>

definition HAL_GPIO_ReadPin :: "gpio_inputs \<Rightarrow> GPIO_TypeDef \<Rightarrow> 16 word \<Rightarrow> GPIO_PinState" where
  "HAL_GPIO_ReadPin idr port pin =
     (if idr port AND ucast pin \<noteq> 0 then GPIO_PIN_SET else GPIO_PIN_RESET)"

text \<open>
  MachineCore.h is not part of the sources: the event bits that the button callback
  sets are parameters.
\<close>

record events_h =
  BTN_START_EVENT :: "32 word"
  BTN_HOLD_EVENT :: "32 word"
  BTN_ABORT_EVENT :: "32 word"

text \<open>\<open>xEventGroupSetBits\<close> of FreeRTOS on the bits of an event group.\<close>

definition xEventGroupSetBits :: "32 word \<Rightarrow> 32 word \<Rightarrow> 32 word" where
  "xEventGroupSetBits event_group bits_to_set = event_group OR bits_to_set"

definition pdFALSE :: "32 word" where
  "pdFALSE = 0"

section \<open>MachineCore\<close>

text \<open>
  The state that the member functions below read or write: the three flags set by the
  constructor, the objects \<open>m_step_ticker\<close>, \<open>m_conveyor\<close>, \<open>m_spindle\<close> and
  \<open>m_coolant\<close>, the bits of \<open>m_input_events_group\<close>, and the function-local
  \<open>static uint32_t debounce_cntrs[3]\<close> of the button callback. SpindleController and
  CoolantController are not part of the sources; their states are the type parameters
  \<open>'sp\<close> and \<open>'co\<close>.
\<close>

record ('sp, 'co) MachineCore =
  m_startup_finished :: bool
  m_system_halted :: bool
  m_feed_hold :: bool
  m_step_ticker :: StepTicker
  m_conveyor :: Conveyor
  m_spindle :: 'sp
  m_coolant :: 'co
  m_input_events_group :: "32 word"
  debounce_cntrs_0 :: "32 word"
  debounce_cntrs_1 :: "32 word"
  debounce_cntrs_2 :: "32 word"

text \<open>
  \<open>MachineCore::OnIdle\<close>. \<open>Conveyor::on_idle()\<close> is not part of the sources; it is the
  parameter \<open>on_idle\<close>.
\<close>

definition OnIdle ::
  "(Conveyor \<Rightarrow> Conveyor) \<Rightarrow> ('sp, 'co) MachineCore \<Rightarrow> ('sp, 'co) MachineCore" where
  "OnIdle on_idle s =
     (if m_startup_finished s = False then s
      else s\<lparr>m_conveyor := on_idle (m_conveyor s)\<rparr>)"

text \<open>
  \<open>MachineCore::Halt\<close>, statement by statement. \<open>SpindleController::InmediateStop()\<close>
  and \<open>CoolantController::Stop()\<close> are not part of the sources; they are the
  parameters \<open>InmediateStop\<close> and \<open>Stop\<close>, each acting on its own object.
\<close>

definition Halt ::
  "('sp \<Rightarrow> 'sp) \<Rightarrow> ('co \<Rightarrow> 'co) \<Rightarrow> ('sp, 'co) MachineCore \<Rightarrow> ('sp, 'co) MachineCore" where
  "Halt InmediateStop Stop s =
     (let s1 = s\<lparr>m_system_halted := True\<rparr>;
          s2 = s1\<lparr>m_spindle := InmediateStop (m_spindle s1)\<rparr>;
          s3 = s2\<lparr>m_coolant := Stop (m_coolant s2)\<rparr>;
          s4 = s3\<lparr>m_step_ticker := EnableStepperDrivers False (m_step_ticker s3)\<rparr>;
          s5 = s4\<lparr>m_step_ticker := DisableAllMotors (m_step_ticker s4)\<rparr>
      in s5\<lparr>m_conveyor := flush_queue (m_conveyor s5)\<rparr>)"

text \<open>
  \<open>MachineCore::NotifyOfEvent\<close>, with every branch of the source kept. The bodies of
  the branches hold nothing but comments, so each leaves the state as it is. The
  result is the returned \<open>BaseType_t\<close> and the state.
\<close>

definition NotifyOfEvent ::
  "pins_h \<Rightarrow> gpio_inputs \<Rightarrow> 32 word \<Rightarrow> ('sp, 'co) MachineCore
     \<Rightarrow> 32 word \<times> ('sp, 'co) MachineCore" where
  "NotifyOfEvent pins idr it_evt_src s =
     (let s1 = (if it_evt_src AND push_bit 6 1 \<noteq> 0 then
                  (if HAL_GPIO_ReadPin idr (GLOBAL_FAULT_GPIO_Port pins) (GLOBAL_FAULT_Pin pins)
                        \<noteq> GPIO_PIN_SET then s
                   else if HAL_GPIO_ReadPin idr (LIM_X_GPIO_Port pins) (LIM_X_Pin pins)
                        \<noteq> GPIO_PIN_RESET then s
                   else s)
                else s);
          s2 = (if it_evt_src AND push_bit 7 1 \<noteq> 0 then s1 else s1);
          s3 = (if it_evt_src AND push_bit 8 1 \<noteq> 0 then s2 else s2)
      in (pdFALSE, s3))"


text \<open>
  \<open>MachineCore::delayed_startup_callback\<close>. Deleting the calling timer leaves the
  modelled state as it is.
\<close>

definition delayed_startup_callback ::
  "('sp, 'co) MachineCore \<Rightarrow> ('sp, 'co) MachineCore" where
  "delayed_startup_callback instance =
     (let i1 = instance\<lparr>m_step_ticker := ResetStepperDrivers False (m_step_ticker instance)\<rparr>
      in i1\<lparr>m_startup_finished := True\<rparr>)"

text \<open>
  One of the three button blocks of \<open>read_user_buttons_callback\<close>, which differ only in
  the port and pin read, the counter used and the event set:
  \<^verbatim>\<open>
  if ((PORT->IDR & PIN) == 0) {
      if (debounce_cntrs[k] < 2) debounce_cntrs[k]++;
      else { xEventGroupSetBits(instance->m_input_events_group, EVENT);
             debounce_cntrs[k] = 0; }
  }
  \<close>
  It maps the counter and the event bits to their new values.
\<close>

definition button_block ::
  "gpio_inputs \<Rightarrow> GPIO_TypeDef \<Rightarrow> 16 word \<Rightarrow> 32 word \<Rightarrow> 32 word \<times> 32 word
     \<Rightarrow> 32 word \<times> 32 word" where
  "button_block idr port pin event ce =
     (case ce of (cntr, event_group) \<Rightarrow>
        if idr port AND ucast pin = 0 then
          (if cntr < 2 then (cntr + 1, event_group)
           else (0, xEventGroupSetBits event_group event))
        else (cntr, event_group))"

text \<open>\<open>MachineCore::read_user_buttons_callback\<close>.\<close>

definition read_user_buttons_callback ::
  "pins_h \<Rightarrow> events_h \<Rightarrow> gpio_inputs \<Rightarrow> ('sp, 'co) MachineCore \<Rightarrow> ('sp, 'co) MachineCore" where
  "read_user_buttons_callback pins events idr instance =
     (if m_startup_finished instance = False then instance
      else
        (let (c0, g0) = button_block idr (BTN_START_GPIO_Port pins) (BTN_START_Pin pins)
                          (BTN_START_EVENT events)
                          (debounce_cntrs_0 instance, m_input_events_group instance);
             (c1, g1) = button_block idr (BTN_HOLD_GPIO_Port pins) (BTN_HOLD_Pin pins)
                          (BTN_HOLD_EVENT events) (debounce_cntrs_1 instance, g0);
             (c2, g2) = button_block idr (BTN_ABORT_GPIO_Port pins) (BTN_ABORT_Pin pins)
                          (BTN_ABORT_EVENT events) (debounce_cntrs_2 instance, g1)
         in instance\<lparr>m_input_events_group := g2,
                      debounce_cntrs_0 := c0, debounce_cntrs_1 := c1, debounce_cntrs_2 := c2\<rparr>))"

section \<open>Concrete states\<close>

text \<open>
  A StepTicker with the X and Z motors enabled (bits 0 and 2) and the drivers energized,
  in the middle of a block.
\<close>

definition example_ticker :: StepTicker where
  "example_ticker =
     \<lparr>frequency = 0x47C35000, period = 840,
      inversion_mask_bits_steps = 0, inversion_mask_bits_dirs = 0,
      unstep_bits = 1, motor_enable_bits = 5,
      current_block = 0x20001000, current_tick = 1234, running = True,
      drivers_enabled = True, drivers_in_reset = False\<rparr>"

definition example_block :: Block where
  "example_block =
     \<lparr>steps = [1000, 0, 250], direction_bits = 4,
      nominal_rate = 0x43FA0000, entry_speed = 0, exit_speed = 0,
      accelerate_until = 100, decelerate_after = 900,
      initial_rate = 0, final_rate = 0\<rparr>"

text \<open>
  The pin assignment written in the comments of gpio.cpp (buttons on PF6, PF7 and PF8,
  the global fault on PG6, the X limit on PC6), and three distinct event bits.
\<close>

definition example_pins :: pins_h where
  "example_pins =
     \<lparr>GLOBAL_FAULT_GPIO_Port = GPIOG, GLOBAL_FAULT_Pin = 0x0040,
      LIM_X_GPIO_Port = GPIOC, LIM_X_Pin = 0x0040,
      BTN_START_GPIO_Port = GPIOF, BTN_START_Pin = 0x0040,
      BTN_HOLD_GPIO_Port = GPIOF, BTN_HOLD_Pin = 0x0080,
      BTN_ABORT_GPIO_Port = GPIOF, BTN_ABORT_Pin = 0x0100\<rparr>"

definition example_events :: events_h where
  "example_events = \<lparr>BTN_START_EVENT = 1, BTN_HOLD_EVENT = 2, BTN_ABORT_EVENT = 4\<rparr>"

text \<open>
  A machine whose delayed startup has not run yet, with one block queued and all three
  debounce counters at their threshold.
\<close>

definition example_machine :: "(unit, unit) MachineCore" where
  "example_machine =
     \<lparr>m_startup_finished = False, m_system_halted = False, m_feed_hold = False,
      m_step_ticker = example_ticker, m_conveyor = \<lparr>queue = [example_block]\<rparr>,
      m_spindle = (), m_coolant = (),
      m_input_events_group = 0,
      debounce_cntrs_0 = 2, debounce_cntrs_1 = 2, debounce_cntrs_2 = 2\<rparr>"

section \<open>Bit level lemmas\<close>

lemma shl1_Some: "unat a < 8 \<Longrightarrow> shl1 a = Some (push_bit (unat a) 1)"
  by (simp add: shl1_def)

lemma bit_or_mask:
  "unat a < 8 \<Longrightarrow>
   bit (ucast ((ucast (w :: 8 word) :: 32 word) OR push_bit (unat (a :: 8 word)) 1) :: 8 word) i
     = (i = unat a \<or> bit w i)"
  by (auto simp: bit_simps dest: bit_imp_le_length)

lemma bit_and_not_mask:
  "unat a < 8 \<Longrightarrow>
   bit (ucast ((ucast (w :: 8 word) :: 32 word) AND NOT (push_bit (unat (a :: 8 word)) 1))
          :: 8 word) i
     = (i \<noteq> unat a \<and> bit w i)"
  by (auto simp: bit_simps dest: bit_imp_le_length)

lemma and_not_or_mask:
  assumes "unat a < 8" and "\<not> bit w (unat a)"
  shows "(ucast ((ucast (ucast ((ucast (w :: 8 word) :: 32 word)
                                  OR push_bit (unat (a :: 8 word)) 1) :: 8 word) :: 32 word)
            AND NOT (push_bit (unat a) 1)) :: 8 word) = w"
proof (rule bit_eqI)
  fix i
  show "bit (ucast ((ucast (ucast ((ucast w :: 32 word) OR push_bit (unat a) 1) :: 8 word)
                       :: 32 word)
            AND NOT (push_bit (unat a) 1)) :: 8 word) i = bit w i"
    using assms by (auto simp only: bit_and_not_mask bit_or_mask)
qed

text \<open>Out of the axis range: a shift count of 32 or more has no defined result.\<close>

lemma EnableMotor_undefined_shift: "32 \<le> unat axis \<Longrightarrow> EnableMotor axis st = None"
  by (simp add: EnableMotor_def shl1_def)

section \<open>Halt\<close>


text \<open>
  C2. \<open>Halt\<close> is idempotent: a second call in a row changes nothing but what the
  spindle and coolant stops do to their own objects. The halted flag,
  \<open>motor_enable_bits\<close>, the driver enable line (indeed the whole StepTicker) and the
  queue are the same after two calls as after one.
\<close>

theorem Halt_idempotent:
  "Halt InmediateStop Stop (Halt InmediateStop Stop s)
     = (Halt InmediateStop Stop s)
         \<lparr>m_spindle := InmediateStop (InmediateStop (m_spindle s)),
          m_coolant := Stop (Stop (m_coolant s))\<rparr>
   \<and> m_system_halted (Halt InmediateStop Stop (Halt InmediateStop Stop s))
       = m_system_halted (Halt InmediateStop Stop s)
   \<and> motor_enable_bits (m_step_ticker (Halt InmediateStop Stop (Halt InmediateStop Stop s)))
       = motor_enable_bits (m_step_ticker (Halt InmediateStop Stop s))
   \<and> drivers_enabled (m_step_ticker (Halt InmediateStop Stop (Halt InmediateStop Stop s)))
       = drivers_enabled (m_step_ticker (Halt InmediateStop Stop s))
   \<and> m_step_ticker (Halt InmediateStop Stop (Halt InmediateStop Stop s))
       = m_step_ticker (Halt InmediateStop Stop s)
   \<and> queue (m_conveyor (Halt InmediateStop Stop (Halt InmediateStop Stop s)))
       = queue (m_conveyor (Halt InmediateStop Stop s))"
  by (simp add: Halt_def Let_def DisableAllMotors_def EnableStepperDrivers_def flush_queue_def)

section \<open>StepTicker\<close>


text \<open>
  C6. \<open>EnableStepperDrivers(false)\<close> called twice in a row leaves the same state as
  one call, from every StepTicker state.
\<close>

theorem EnableStepperDrivers_false_idempotent:
  "EnableStepperDrivers False (EnableStepperDrivers False st) = EnableStepperDrivers False st"
  by (simp add: EnableStepperDrivers_def)

text \<open>
  C7. The scale of the fixed point format is exactly \<open>2 ^ 62\<close>, as a 64-bit pattern
  and as the signed value that pattern has, and the conversion back divides the
  converted operand by \<open>2 ^ 62\<close>.
\<close>

theorem STEPTICKER_FPSCALE_is_2_pow_62:
  "sint STEPTICKER_FPSCALE = 2 ^ 62
   \<and> STEPTICKER_FPSCALE = 2 ^ 62
   \<and> STEPTICKER_FROMFP to_float x = to_float x / 2 ^ 62"
  by (simp add: STEPTICKER_FPSCALE_def STEPTICKER_FROMFP_def)

text \<open>
  C8. \<open>get_frequency\<close> returns the \<open>frequency\<close> field and \<open>get_current_block\<close> the
  \<open>current_block\<close> field, and each leaves the StepTicker exactly as it found it.
\<close>

theorem observers_pure:
  "fst (get_frequency st) = frequency st \<and> snd (get_frequency st) = st
   \<and> fst (get_current_block st) = current_block st \<and> snd (get_current_block st) = st"
  by (simp add: get_frequency_def get_current_block_def)

text \<open>
  C9. For an axis index \<open>a\<close> below 8, \<open>EnableMotor(a)\<close> returns a state whose
  \<open>motor_enable_bits\<close> has bit \<open>a\<close> set and every other bit as before, and
  \<open>DisableMotor(a)\<close> one with bit \<open>a\<close> clear and every other bit as before; neither
  changes another field. If bit \<open>a\<close> was clear, \<open>EnableMotor(a)\<close> followed by
  \<open>DisableMotor(a)\<close> gives the starting state back.
\<close>

theorem motor_bit_set_clear: "unat a < 8 \<Longrightarrow>
  (\<exists>st'. EnableMotor a st = Some st'
      \<and> (\<forall>i. bit (motor_enable_bits st') i = (i = unat a \<or> bit (motor_enable_bits st) i))
      \<and> st' = st\<lparr>motor_enable_bits := motor_enable_bits st'\<rparr>)
  \<and> (\<exists>st'. DisableMotor a st = Some st'
      \<and> (\<forall>i. bit (motor_enable_bits st') i = (i \<noteq> unat a \<and> bit (motor_enable_bits st) i))
      \<and> st' = st\<lparr>motor_enable_bits := motor_enable_bits st'\<rparr>)
  \<and> (\<not> bit (motor_enable_bits st) (unat a) \<longrightarrow>
        Option.bind (EnableMotor a st) (DisableMotor a) = Some st)"
proof (intro conjI impI)
  assume a: "unat a < 8"
  define m :: "32 word" where "m = push_bit (unat a) 1"
  define en :: "8 word" where "en = ucast ((ucast (motor_enable_bits st) :: 32 word) OR m)"
  define dis :: "8 word" where "dis = ucast ((ucast (motor_enable_bits st) :: 32 word) AND NOT m)"
  have sh: "shl1 a = Some m"
    using a by (simp only: m_def shl1_Some)
  have E: "EnableMotor a st = Some (st\<lparr>motor_enable_bits := en\<rparr>)"
    by (simp only: EnableMotor_def sh option.case en_def)
  have D: "DisableMotor a st = Some (st\<lparr>motor_enable_bits := dis\<rparr>)"
    by (simp only: DisableMotor_def sh option.case dis_def)
  have en_bits: "bit en i = (i = unat a \<or> bit (motor_enable_bits st) i)" for i
    unfolding en_def m_def by (rule bit_or_mask [OF a])
  have dis_bits: "bit dis i = (i \<noteq> unat a \<and> bit (motor_enable_bits st) i)" for i
    unfolding dis_def m_def by (rule bit_and_not_mask [OF a])
  show "\<exists>st'. EnableMotor a st = Some st'
      \<and> (\<forall>i. bit (motor_enable_bits st') i = (i = unat a \<or> bit (motor_enable_bits st) i))
      \<and> st' = st\<lparr>motor_enable_bits := motor_enable_bits st'\<rparr>"
    using E en_bits by simp
  show "\<exists>st'. DisableMotor a st = Some st'
      \<and> (\<forall>i. bit (motor_enable_bits st') i = (i \<noteq> unat a \<and> bit (motor_enable_bits st) i))
      \<and> st' = st\<lparr>motor_enable_bits := motor_enable_bits st'\<rparr>"
    using D dis_bits by simp
  assume b: "\<not> bit (motor_enable_bits st) (unat a)"
  have "ucast ((ucast en :: 32 word) AND NOT m) = motor_enable_bits st"
    unfolding en_def m_def by (rule and_not_or_mask [OF a b])
  then have "DisableMotor a (st\<lparr>motor_enable_bits := en\<rparr>) = Some st"
    by (simp only: DisableMotor_def sh option.case) simp
  with E show "Option.bind (EnableMotor a st) (DisableMotor a) = Some st"
    by simp
qed

theorem motor_bit_set_clear_witness:
  "unat (3 :: 8 word) < 8
   \<and> \<not> bit (motor_enable_bits example_ticker) (unat (3 :: 8 word))
   \<and> EnableMotor 3 example_ticker = Some (example_ticker\<lparr>motor_enable_bits := 13\<rparr>)
   \<and> DisableMotor 2 example_ticker = Some (example_ticker\<lparr>motor_enable_bits := 1\<rparr>)
   \<and> Option.bind (EnableMotor 3 example_ticker) (DisableMotor 3) = Some example_ticker"
proof -
  have a: "unat (3 :: 8 word) < 8" by simp
  have b: "\<not> bit (motor_enable_bits example_ticker) (unat (3 :: 8 word))"
    by (simp add: example_ticker_def)
  have "Option.bind (EnableMotor 3 example_ticker) (DisableMotor 3) = Some example_ticker"
    using motor_bit_set_clear [OF a, of example_ticker] b by blast
  moreover have "EnableMotor 3 example_ticker = Some (example_ticker\<lparr>motor_enable_bits := 13\<rparr>)"
    by (simp add: EnableMotor_def shl1_def example_ticker_def)
  moreover have "DisableMotor 2 example_ticker = Some (example_ticker\<lparr>motor_enable_bits := 1\<rparr>)"
    by (simp add: DisableMotor_def shl1_def example_ticker_def)
  ultimately show ?thesis using a b by blast
qed

section \<open>MachineCore callbacks\<close>

text \<open>
  C4. For every interrupt source mask and every level of the input pins,
  \<open>NotifyOfEvent\<close> returns \<open>pdFALSE\<close> (zero) and the machine state, event bits
  included, is the one it was called in.
\<close>

theorem NotifyOfEvent_no_effect:
  "NotifyOfEvent pins idr it_evt_src s = (pdFALSE, s) \<and> pdFALSE = 0"
  by (simp add: NotifyOfEvent_def Let_def pdFALSE_def)



text \<open>
  C10. While \<open>m_startup_finished\<close> is false, \<open>OnIdle\<close> returns the state unchanged
  whatever \<open>Conveyor::on_idle\<close> would do, and the button callback returns it unchanged
  whatever the buttons read: no event bit is set and no debounce counter moves. The
  startup callback sets the flag, after which \<open>OnIdle\<close> does run \<open>on_idle\<close> on the
  Conveyor.
\<close>

theorem startup_gate: "m_startup_finished s = False \<Longrightarrow>
   OnIdle on_idle s = s \<and> read_user_buttons_callback pins events idr s = s
   \<and> m_startup_finished (delayed_startup_callback s) = True
   \<and> OnIdle on_idle (delayed_startup_callback s)
       = (delayed_startup_callback s)\<lparr>m_conveyor := on_idle (m_conveyor s)\<rparr>"
  by (simp add: OnIdle_def read_user_buttons_callback_def delayed_startup_callback_def Let_def)

theorem startup_gate_witness:
  "m_startup_finished example_machine = False
   \<and> OnIdle flush_queue example_machine = example_machine
   \<and> read_user_buttons_callback example_pins example_events (\<lambda>port. 0) example_machine
       = example_machine
   \<and> OnIdle flush_queue (delayed_startup_callback example_machine)
       \<noteq> delayed_startup_callback example_machine
   \<and> m_input_events_group (read_user_buttons_callback example_pins example_events (\<lambda>port. 0)
         (delayed_startup_callback example_machine)) = 7"
proof -
  have a: "m_startup_finished example_machine = False"
    by (simp add: example_machine_def)
  have "OnIdle flush_queue example_machine = example_machine
   \<and> read_user_buttons_callback example_pins example_events (\<lambda>port. 0) example_machine
       = example_machine"
    using startup_gate [OF a, of flush_queue example_pins example_events "\<lambda>port. 0"] by blast
  moreover have "OnIdle flush_queue (delayed_startup_callback example_machine)
       \<noteq> delayed_startup_callback example_machine"
    by (simp add: OnIdle_def delayed_startup_callback_def example_machine_def flush_queue_def
        Let_def ResetStepperDrivers_def)
  moreover have "m_input_events_group (read_user_buttons_callback example_pins example_events (\<lambda>port. 0)
         (delayed_startup_callback example_machine)) = 7"
    by (simp add: read_user_buttons_callback_def delayed_startup_callback_def example_machine_def
        button_block_def xEventGroupSetBits_def example_pins_def example_events_def Let_def)
  ultimately show ?thesis using a by blast
qed

end
